theory Spec2Isabelle
  imports Main "HOL-Library.Sublist"
begin

section \<open>The tile editor: field selection and SQL synthesis\<close>

text \<open>
  The repository holds three near-duplicate copies of the React component \<open>TileEditor\<close>:
  \<^item> copy A: \<open>frontend/src/components/TileEditor.tsx\<close>, lines 1 to 1248;
  \<^item> copy B: the second document in the same file, lines 1249 to 2431;
  \<^item> copy C: \<open>unnamed/part_000\<close>, lines 42 to 1015.
  The handlers \<open>handleAddDimension\<close>, \<open>handleRemoveDimension\<close> and (in A and B)
  \<open>handleAddMeasure\<close> are textually the same in the copies; \<open>generateSqlQuery\<close> and
  \<open>isNumericField\<close> are the same in B and C and differ from A. A definition without a
  suffix embeds copy A; the suffixes \<open>_B\<close> and \<open>_C\<close> name the other copies.

  A string is the list of the bytes of its UTF-8 encoding. React state is a record that every handler receives and
  returns; each handler is one discrete user event that sees the committed state.
\<close>

subsection \<open>JavaScript string and array primitives\<close>

text \<open>
  \<open>String.prototype.toLowerCase\<close>, on the ASCII letters. The type names the classifier
  looks for are ASCII, and no keyword of its list can be completed by a letter that
  Unicode lowercasing alone would produce, so the ASCII table decides the same searches.
\<close>

definition toLowerCase_char :: "char \<Rightarrow> char" where
  "toLowerCase_char c =
     (case map_of (zip ''ABCDEFGHIJKLMNOPQRSTUVWXYZ'' ''abcdefghijklmnopqrstuvwxyz'') c of
        None \<Rightarrow> c
      | Some l \<Rightarrow> l)"

definition toLowerCase :: "string \<Rightarrow> string" where
  "toLowerCase s = map toLowerCase_char s"

text \<open>\<open>s.includes(sub)\<close>: \<open>sub\<close> occurs in \<open>s\<close> at some position.\<close>

fun includes_str :: "string \<Rightarrow> string \<Rightarrow> bool" where
  "includes_str [] sub = (sub = [])"
| "includes_str (c # cs) sub = (prefix sub (c # cs) \<or> includes_str cs sub)"

text \<open>\<open>parts.join(sep)\<close>.\<close>

fun join :: "string list \<Rightarrow> string \<Rightarrow> string" where
  "join [] sep = []"
| "join [x] sep = x"
| "join (x # y # ys) sep = x @ sep @ join (y # ys) sep"

text \<open>
  \<open>arr.splice(index, 1)\<close> on a copy of the array, for an integer \<open>index\<close>: a negative
  start counts from the end and is clamped at 0, a start beyond the end is clamped at
  the length; one element is deleted when the start is inside the array.
\<close>

definition splice1 :: "'a list \<Rightarrow> int \<Rightarrow> 'a list" where
  "splice1 xs index =
     (let len = int (length xs);
          start = (if index < 0 then max (len + index) 0 else min index len)
      in take (nat start) xs @ drop (nat start + 1) xs)"

text \<open>The exceptions a handler can raise.\<close>

datatype js_error = TypeError | ReferenceError

subsection \<open>Data model\<close>

text \<open>
  \<open>interface DatabaseField\<close>. The type of a column is read from the schema response as
  \<open>column.type || column.data_type\<close> and can be missing at run time, so it is optional
  here.
\<close>

record DatabaseField =
  name :: string
  type :: "string option"
  table :: string
  description :: "string option"

record DimensionField =
  fieldId :: string
  fieldName :: string
  aggregation :: "string option"

text \<open>\<open>interface MeasureField\<close>; the field \<open>alias\<close> is written \<open>m_alias\<close>.\<close>

record MeasureField =
  fieldId :: string
  fieldName :: string
  aggregation :: string
  m_alias :: "string option"

text \<open>\<open>interface TextRow\<close>, with \<open>id\<close> and \<open>type\<close> written \<open>row_id\<close> and \<open>row_type\<close>.\<close>

record TextRow =
  row_id :: string
  row_type :: string
  content :: string
  isQuery :: bool

text \<open>
  \<open>interface TileConfig\<close>: every member is optional. \<open>metadata\<close> only ever carries
  \<open>sqlQuery\<close>; \<open>sortBy\<close> and \<open>limit\<close> are never written or read by the editor.
\<close>

record TileConfig =
  cfg_chartType :: "string option"
  cfg_dimensions :: "DimensionField list option"
  cfg_measures :: "MeasureField list option"
  cfg_textRows :: "TextRow list option"
  cfg_connectionId :: "string option"
  cfg_customQuery :: "string option"
  cfg_isQueryMode :: "bool option"
  cfg_uiType :: "string option"
  cfg_uiChartType :: "string option"
  cfg_sqlQuery :: "string option"
  cfg_measure :: "MeasureField option"

text \<open>The object literal \<open>{}\<close>.\<close>

definition empty_config :: TileConfig where
  "empty_config = \<lparr>cfg_chartType = None, cfg_dimensions = None, cfg_measures = None,
     cfg_textRows = None, cfg_connectionId = None, cfg_customQuery = None,
     cfg_isQueryMode = None, cfg_uiType = None, cfg_uiChartType = None,
     cfg_sqlQuery = None, cfg_measure = None\<rparr>"

text \<open>
  \<open>interface Tile\<close> (\<open>TileData\<close> in copy B), the tile handed to the editor for
  editing, and \<open>interface CreateTileDto\<close>, the payload of a save. The tile kinds are
  the string tags of the source: the tile-kind state holds \<open>chart\<close>, \<open>table\<close>,
  \<open>metric\<close>, \<open>text\<close> or \<open>query\<close>, the backend knows \<open>chart\<close>, \<open>text\<close> and \<open>kpi\<close>.
\<close>

record Tile =
  tile_id :: string
  tile_title :: string
  tile_type :: string
  tile_description :: "string option"
  tile_connectionId :: "string option"
  tile_config :: "TileConfig option"

record CreateTileDto =
  dto_title :: string
  dto_description :: "string option"
  dto_type :: string
  dto_dashboardId :: string
  dto_connectionId :: "string option"
  dto_config :: TileConfig

text \<open>
  The state of one open editor: the \<open>useState\<close> cells the modelled handlers read or
  write. The cells \<open>name\<close> and \<open>description\<close> are written \<open>st_name\<close> and
  \<open>st_description\<close>.
\<close>

record editor_state =
  st_name :: string
  st_description :: string
  tileType :: string
  connectionId :: string
  chartType :: string
  textRows :: "TextRow list"
  isQueryMode :: bool
  customQuery :: string
  dimensions :: "DimensionField list"
  measures :: "MeasureField list"
  saving :: bool
  error :: string
  fieldTableMap :: "string \<rightharpoonup> string"

text \<open>\<open>x || d\<close> for an optional string: a missing and an empty string are both falsy.\<close>

definition js_or :: "string option \<Rightarrow> string \<Rightarrow> string" where
  "js_or x d = (case x of None \<Rightarrow> d | Some v \<Rightarrow> if v = [] then d else v)"

text \<open>\<open>tables.add(t)\<close> on a \<open>Set\<close>, which iterates in insertion order.\<close>

definition set_add :: "'a list \<Rightarrow> 'a \<Rightarrow> 'a list" where
  "set_add xs x = (if x \<in> set xs then xs else xs @ [x])"

text \<open>
  \<open>s.trim()\<close>. A string stands for its UTF-8 encoding, so the white space and the line
  terminators of ECMAScript are the byte sequences below: the ASCII ones, U+00A0,
  U+1680, U+2000 to U+200A, U+2028, U+2029, U+202F, U+205F, U+3000 and U+FEFF.
\<close>

definition white_space :: "string list" where
  "white_space =
     [[CHR 0x09], [CHR 0x0A], [CHR 0x0B], [CHR 0x0C], [CHR 0x0D], [CHR 0x20],
      [CHR 0xC2, CHR 0xA0], [CHR 0xE1, CHR 0x9A, CHR 0x80],
      [CHR 0xE2, CHR 0x80, CHR 0x80], [CHR 0xE2, CHR 0x80, CHR 0x81],
      [CHR 0xE2, CHR 0x80, CHR 0x82], [CHR 0xE2, CHR 0x80, CHR 0x83],
      [CHR 0xE2, CHR 0x80, CHR 0x84], [CHR 0xE2, CHR 0x80, CHR 0x85],
      [CHR 0xE2, CHR 0x80, CHR 0x86], [CHR 0xE2, CHR 0x80, CHR 0x87],
      [CHR 0xE2, CHR 0x80, CHR 0x88], [CHR 0xE2, CHR 0x80, CHR 0x89],
      [CHR 0xE2, CHR 0x80, CHR 0x8A], [CHR 0xE2, CHR 0x80, CHR 0xA8],
      [CHR 0xE2, CHR 0x80, CHR 0xA9], [CHR 0xE2, CHR 0x80, CHR 0xAF],
      [CHR 0xE2, CHR 0x81, CHR 0x9F], [CHR 0xE3, CHR 0x80, CHR 0x80],
      [CHR 0xEF, CHR 0xBB, CHR 0xBF]]"

text \<open>
  Dropping from the front of a string every leading sequence of a given list, whose
  members have one, two or three bytes.
\<close>

fun strip_front :: "string list \<Rightarrow> string \<Rightarrow> string" where
  "strip_front ws [] = []"
| "strip_front ws [a] = (if [a] \<in> set ws then [] else [a])"
| "strip_front ws [a, b] =
     (if [a] \<in> set ws then strip_front ws [b]
      else if [a, b] \<in> set ws then []
      else [a, b])"
| "strip_front ws (a # b # c # cs) =
     (if [a] \<in> set ws then strip_front ws (b # c # cs)
      else if [a, b] \<in> set ws then strip_front ws (c # cs)
      else if [a, b, c] \<in> set ws then strip_front ws cs
      else a # b # c # cs)"

definition trim :: "string \<Rightarrow> string" where
  "trim s = rev (strip_front (map rev white_space) (rev (strip_front white_space s)))"

subsection \<open>Field classifier\<close>

definition numericTypes :: "string list" where
  "numericTypes = [''int'', ''integer'', ''number'', ''float'', ''double'', ''decimal'',
     ''numeric'', ''bigint'', ''smallint'', ''real'']"

text \<open>
  Copy A, \<open>isNumericField\<close>: the guard \<open>!field.type\<close> answers false for a missing and
  for an empty type. (The other disjunct of the guard, \<open>!field\<close>, is about a null
  argument, which a \<open>DatabaseField\<close> is not.)
\<close>

definition isNumericField :: "DatabaseField \<Rightarrow> bool" where
  "isNumericField field =
     (case type field of
        None \<Rightarrow> False
      | Some t \<Rightarrow>
          if t = [] then False
          else list_ex (\<lambda>ty. includes_str (toLowerCase t) ty) numericTypes)"

definition numericTypes_B :: "string list" where
  "numericTypes_B = [''number'', ''integer'', ''int'', ''float'', ''decimal'', ''double'',
     ''numeric'']"

text \<open>
  Copies B and C, \<open>isNumericField\<close>: a shorter list and no guard, so
  \<open>field.type.toLowerCase()\<close> raises a TypeError on a missing type.
\<close>

definition isNumericField_B :: "DatabaseField \<Rightarrow> js_error + bool" where
  "isNumericField_B field =
     (case type field of
        None \<Rightarrow> Inl TypeError
      | Some t \<Rightarrow> Inr (list_ex (\<lambda>ty. includes_str (toLowerCase t) ty) numericTypes_B))"

subsection \<open>Selection set\<close>

definition handleAddDimension :: "DatabaseField \<Rightarrow> editor_state \<Rightarrow> editor_state" where
  "handleAddDimension field s =
     (let fieldId = table field @ ''.'' @ name field;
          dimension = \<lparr>DimensionField.fieldId = fieldId,
                       DimensionField.fieldName = name field,
                       DimensionField.aggregation = None\<rparr>
      in if \<not> list_ex (\<lambda>d. DimensionField.fieldId d = fieldId) (dimensions s)
         then s\<lparr>dimensions := dimensions s @ [dimension],
                 fieldTableMap := (fieldTableMap s)(fieldId \<mapsto> table field)\<rparr>
         else s)"

definition handleRemoveDimension :: "int \<Rightarrow> editor_state \<Rightarrow> editor_state" where
  "handleRemoveDimension index s = s\<lparr>dimensions := splice1 (dimensions s) index\<rparr>"

definition handleAddMeasure :: "DatabaseField \<Rightarrow> editor_state \<Rightarrow> editor_state" where
  "handleAddMeasure field s =
     (if \<not> isNumericField field then s
      else
        let exists = list_ex (\<lambda>m. MeasureField.fieldId m = name field) (measures s)
        in if \<not> exists
           then
             let newMeasure = \<lparr>MeasureField.fieldId = name field,
                                MeasureField.fieldName = name field,
                                MeasureField.aggregation = ''sum'',
                                m_alias = Some (name field @ ''_sum'')\<rparr>
             in s\<lparr>measures := measures s @ [newMeasure],
                   fieldTableMap :=
                     (fieldTableMap s)(MeasureField.fieldId newMeasure \<mapsto> table field)\<rparr>
           else s)"

text \<open>
  Copy C, \<open>handleAddMeasure\<close>: the classifier is the unguarded one, and the last
  statement is \<open>fieldTableMap.set(fieldId, field.table)\<close> where no \<open>fieldId\<close> is in
  scope. Evaluating that name raises a ReferenceError after \<open>setMeasures\<close> has queued
  the new list, so the list grows and the map is never written. The result pairs the
  state with the exception that left the handler, if any.
\<close>

definition handleAddMeasure_C ::
  "DatabaseField \<Rightarrow> editor_state \<Rightarrow> editor_state \<times> js_error option" where
  "handleAddMeasure_C field s =
     (case isNumericField_B field of
        Inl e \<Rightarrow> (s, Some e)
      | Inr numeric \<Rightarrow>
          if \<not> numeric then (s, None)
          else
            let exists = list_ex (\<lambda>m. MeasureField.fieldId m = name field) (measures s)
            in if \<not> exists
               then
                 let newMeasure = \<lparr>MeasureField.fieldId = name field,
                                    MeasureField.fieldName = name field,
                                    MeasureField.aggregation = ''sum'',
                                    m_alias = Some (name field @ ''_sum'')\<rparr>
                 in (s\<lparr>measures := measures s @ [newMeasure]\<rparr>, Some ReferenceError)
               else (s, None))"

subsection \<open>SQL synthesizer\<close>

text \<open>
  \<open>generateSqlQuery\<close> is a closure over the state cells \<open>dimensions\<close>, \<open>measures\<close> and
  \<open>fieldTableMap\<close>, which are its three arguments here.
\<close>

definition resolve_table :: "(string \<rightharpoonup> string) \<Rightarrow> string \<Rightarrow> string" where
  "resolve_table ftm fid = js_or (ftm fid) ''unknown_table''"

definition collect_tables ::
  "DimensionField list \<Rightarrow> MeasureField list \<Rightarrow> (string \<rightharpoonup> string) \<Rightarrow> string list" where
  "collect_tables dims meas ftm =
     foldl set_add
       (foldl set_add [] (map (\<lambda>dim. resolve_table ftm (DimensionField.fieldId dim)) dims))
       (map (\<lambda>measure. resolve_table ftm (MeasureField.fieldId measure)) meas)"

definition dimensionColumns :: "DimensionField list \<Rightarrow> (string \<rightharpoonup> string) \<Rightarrow> string list" where
  "dimensionColumns dims ftm =
     map (\<lambda>dim. resolve_table ftm (DimensionField.fieldId dim) @ ''.'' @
                 DimensionField.fieldName dim) dims"

definition measureColumns :: "MeasureField list \<Rightarrow> (string \<rightharpoonup> string) \<Rightarrow> string list" where
  "measureColumns meas ftm =
     map (\<lambda>measure. MeasureField.aggregation measure @ ''('' @
                     resolve_table ftm (MeasureField.fieldId measure) @ ''.'' @
                     MeasureField.fieldName measure @ '') as '' @
                     js_or (m_alias measure) (MeasureField.fieldName measure)) meas"

text \<open>\<open>tablesList[0]\<close>, printed by a template literal.\<close>

definition first_table :: "string list \<Rightarrow> string" where
  "first_table tablesList = (case tablesList of [] \<Rightarrow> ''undefined'' | t # _ \<Rightarrow> t)"

definition groupByClause :: "string list \<Rightarrow> string" where
  "groupByClause cols = (if cols \<noteq> [] then ''GROUP BY '' @ join cols '', '' else [])"

definition generateSqlQuery ::
  "DimensionField list \<Rightarrow> MeasureField list \<Rightarrow> (string \<rightharpoonup> string) \<Rightarrow> string" where
  "generateSqlQuery dims meas ftm =
     (if dims = [] \<or> meas = [] then []
      else
        let tablesList = collect_tables dims meas ftm;
            selectClause = join (dimensionColumns dims ftm @ measureColumns meas ftm) '', '';
            fromClause = first_table tablesList
        in ''SELECT '' @ selectClause @ '' \<newline>FROM '' @ fromClause @ '' \<newline>'' @
           groupByClause (dimensionColumns dims ftm))"

text \<open>
  Copies B and C: the alias is printed as it is (\<open>undefined\<close> when missing), the
  statement is one line, and a comment takes the place between the table and the
  grouping when more than one table was collected.
\<close>

definition measureColumns_B :: "MeasureField list \<Rightarrow> (string \<rightharpoonup> string) \<Rightarrow> string list" where
  "measureColumns_B meas ftm =
     map (\<lambda>measure. MeasureField.aggregation measure @ ''('' @
                     resolve_table ftm (MeasureField.fieldId measure) @ ''.'' @
                     MeasureField.fieldName measure @ '') as '' @
                     (case m_alias measure of None \<Rightarrow> ''undefined'' | Some a \<Rightarrow> a)) meas"

definition join_marker :: string where
  "join_marker = ''/* JOIN logic needed for multiple tables */''"

definition generateSqlQuery_B ::
  "DimensionField list \<Rightarrow> MeasureField list \<Rightarrow> (string \<rightharpoonup> string) \<Rightarrow> string" where
  "generateSqlQuery_B dims meas ftm =
     (if dims = [] \<or> meas = [] then []
      else
        let tablesList = collect_tables dims meas ftm;
            selectClause = join (dimensionColumns dims ftm @ measureColumns_B meas ftm) '', '';
            fromClause = first_table tablesList
        in ''SELECT '' @ selectClause @ '' FROM '' @ fromClause @ '' '' @
           (if length tablesList > 1 then join_marker else []) @ '' '' @
           groupByClause (dimensionColumns dims ftm))"

subsection \<open>Validation gate and save\<close>

text \<open>Copy A, \<open>isValid\<close>: a predicate on the state; its result is used for its truthiness.\<close>

definition isValid :: "editor_state \<Rightarrow> bool" where
  "isValid s =
     (if trim (st_name s) = [] then False
      else if tileType s = ''chart'' \<or> tileType s = ''table''
        then connectionId s \<noteq> [] \<and> dimensions s \<noteq> [] \<and> measures s \<noteq> []
      else if tileType s = ''metric''
        then connectionId s \<noteq> [] \<and> measures s \<noteq> []
      else if tileType s = ''text''
        then textRows s \<noteq> [] \<and> list_ex (\<lambda>row. trim (content row) \<noteq> []) (textRows s)
      else if tileType s = ''query''
        then (if isQueryMode s
              then connectionId s \<noteq> [] \<and> length (trim (customQuery s)) > 0
              else textRows s \<noteq> [] \<and>
                   list_ex (\<lambda>row. trim (content row) \<noteq> []) (textRows s))
      else False)"

text \<open>
  The first \<open>switch (tileType)\<close> of \<open>handleSave\<close> in copy A, which fills the
  configuration. \<open>None\<close> is the early \<open>return\<close> of the metric branch.
\<close>

definition buildConfig :: "editor_state \<Rightarrow> TileConfig option" where
  "buildConfig s =
     (let sql = generateSqlQuery (dimensions s) (measures s) (fieldTableMap s)
      in if tileType s = ''chart'' then
           Some (empty_config\<lparr>cfg_chartType := Some (chartType s),
                   cfg_dimensions := Some (dimensions s),
                   cfg_measures := Some (measures s),
                   cfg_uiType := Some ''chart'',
                   cfg_sqlQuery := Some sql\<rparr>)
         else if tileType s = ''table'' then
           Some (empty_config\<lparr>cfg_chartType := Some ''bar'',
                   cfg_uiChartType := Some ''table'',
                   cfg_dimensions := Some (dimensions s),
                   cfg_measures := Some (measures s),
                   cfg_uiType := Some ''table'',
                   cfg_sqlQuery := Some sql\<rparr>)
         else if tileType s = ''metric'' then
           (case measures s of
              [] \<Rightarrow> None
            | m # _ \<Rightarrow>
                Some (empty_config\<lparr>cfg_measure := Some m,
                        cfg_uiType := Some ''metric'',
                        cfg_sqlQuery := Some sql\<rparr>))
         else if tileType s = ''text'' then
           Some (empty_config\<lparr>cfg_textRows := Some (textRows s),
                   cfg_uiType := Some ''text'',
                   cfg_isQueryMode := Some False\<rparr>)
         else if tileType s = ''query'' then
           (if isQueryMode s
            then Some (empty_config\<lparr>cfg_customQuery := Some (customQuery s),
                         cfg_isQueryMode := Some True,
                         cfg_uiType := Some ''query'',
                         cfg_sqlQuery := Some (customQuery s)\<rparr>)
            else Some (empty_config\<lparr>cfg_textRows := Some (textRows s),
                         cfg_uiType := Some ''query'',
                         cfg_isQueryMode := Some False\<rparr>))
         else Some empty_config)"

text \<open>The second \<open>switch (tileType)\<close>: the tile kind the backend accepts.\<close>

definition backendType :: "string \<Rightarrow> string" where
  "backendType kind =
     (if kind = ''chart'' \<or> kind = ''table'' then ''chart''
      else if kind = ''metric'' then ''kpi''
      else if kind = ''text'' \<or> kind = ''query'' then ''text''
      else ''chart'')"

text \<open>
  What \<open>handleSave\<close> does to the world: the calls of the persistence service and the
  callbacks \<open>onSave\<close> and \<open>onClose\<close> of the dialog, in order. The awaited service call
  either resolves or rejects; a rejection carries the message of an \<open>Error\<close>, or some
  other value.
\<close>

datatype effect = UpdateTile string CreateTileDto | CreateTile CreateTileDto | OnSave | OnClose

datatype net_result = Resolved | Rejected "string option"

definition handleSave ::
  "Tile option \<Rightarrow> string \<Rightarrow> net_result \<Rightarrow> editor_state \<Rightarrow> editor_state \<times> effect list" where
  "handleSave tile dashboardId net s =
     (if \<not> isValid s
      then (s\<lparr>error := ''Invalid tile configuration'', saving := False\<rparr>, [])
      else
        let s1 = s\<lparr>error := [], saving := True\<rparr>
        in (case buildConfig s1 of
             None \<Rightarrow>
               (s1\<lparr>error := ''At least one measure is required for a metric tile'',
                   saving := False\<rparr>, [])
           | Some config0 \<Rightarrow>
               let config = (if connectionId s1 \<noteq> []
                             then config0\<lparr>cfg_connectionId := Some (connectionId s1)\<rparr>
                             else config0);
                   tileData = \<lparr>dto_title = st_name s1,
                     dto_description =
                       (if st_description s1 = [] then None else Some (st_description s1)),
                     dto_type = backendType (tileType s1),
                     dto_dashboardId = dashboardId,
                     dto_connectionId =
                       (if connectionId s1 = [] then None else Some (connectionId s1)),
                     dto_config = config\<rparr>;
                   call = (case tile of
                             None \<Rightarrow> CreateTile tileData
                           | Some t \<Rightarrow>
                               if tile_id t \<noteq> [] then UpdateTile (tile_id t) tileData
                               else CreateTile tileData)
               in (case net of
                     Resolved \<Rightarrow> (s1\<lparr>saving := False\<rparr>, [call, OnSave, OnClose])
                   | Rejected msg \<Rightarrow>
                       (s1\<lparr>error := ''Failed to save tile: '' @
                                      (case msg of None \<Rightarrow> ''Unknown error'' | Some m \<Rightarrow> m),
                           saving := False\<rparr>, [call]))))"

subsection \<open>Loading a tile into the editor\<close>

text \<open>
  Copy A, the effect that initialises the form from the tile being edited. The tile
  kind is taken from \<open>tile.type\<close>, the backend's tag.
\<close>

definition initTile :: "Tile option \<Rightarrow> bool \<Rightarrow> editor_state \<Rightarrow> editor_state" where
  "initTile tile is_open s =
     (case tile of
        None \<Rightarrow> s
      | Some t \<Rightarrow>
          if \<not> is_open then s
          else
            let s1 = s\<lparr>st_name := tile_title t,
                       st_description := js_or (tile_description t) [],
                       tileType := js_or (Some (tile_type t)) ''chart''\<rparr>
            in (case tile_config t of
                 None \<Rightarrow> s1
               | Some c \<Rightarrow>
                   let s2 = s1\<lparr>chartType := js_or (cfg_chartType c) ''bar'',
                              dimensions := (case cfg_dimensions c of None \<Rightarrow> [] | Some ds \<Rightarrow> ds),
                              measures := (case cfg_measures c of None \<Rightarrow> [] | Some ms \<Rightarrow> ms)\<rparr>;
                       s3 = (case tile_connectionId t of
                               None \<Rightarrow> s2
                             | Some cid \<Rightarrow> if cid \<noteq> [] then s2\<lparr>connectionId := cid\<rparr> else s2)
                   in if tile_type t = ''text''
                      then (case cfg_textRows c of
                              None \<Rightarrow> s3
                            | Some rows \<Rightarrow> s3\<lparr>textRows := rows\<rparr>)
                      else s3))"

text \<open>
  Copy B, the same effect. The tile kind is the tag \<open>uiType\<close> of the configuration when
  it is there, and otherwise the image of the backend's tag under a fixed mapping.
  \<open>uuidv4\<close> supplies an identifier for a text row that has none; the row's position
  stands for the call. The statements of the effect set different cells one after the
  other; each group of statements is a definition, and \<open>initTile_B\<close> runs them in the
  order of the source.
\<close>

definition legacyTileType :: "string \<Rightarrow> string" where
  "legacyTileType backend =
     (if backend = ''chart'' then ''chart''
      else if backend = ''text'' then ''text''
      else if backend = ''kpi'' then ''metric''
      else ''chart'')"

text \<open>The tile kind: \<open>if (tile.config?.uiType) ... else switch (tile.type)\<close>.\<close>

definition initTileType_B :: "Tile \<Rightarrow> editor_state \<Rightarrow> editor_state" where
  "initTileType_B t s =
     (let uiType = (case tile_config t of None \<Rightarrow> None | Some c \<Rightarrow> cfg_uiType c)
      in case uiType of
           None \<Rightarrow> s\<lparr>tileType := legacyTileType (tile_type t)\<rparr>
         | Some u \<Rightarrow>
             if u \<noteq> [] then s\<lparr>tileType := u\<rparr>
             else s\<lparr>tileType := legacyTileType (tile_type t)\<rparr>)"

text \<open>The connection, from the top level of the tile or from its configuration.\<close>

definition initConnection_B :: "Tile \<Rightarrow> editor_state \<Rightarrow> editor_state" where
  "initConnection_B t s =
     (let configConnection =
            (case tile_config t of None \<Rightarrow> None | Some c \<Rightarrow> cfg_connectionId c)
      in if js_or (tile_connectionId t) [] \<noteq> []
         then s\<lparr>connectionId := js_or (tile_connectionId t) []\<rparr>
         else if js_or configConnection [] \<noteq> []
         then s\<lparr>connectionId := js_or configConnection []\<rparr>
         else s)"

text \<open>The block \<open>if (tile.config) { ... }\<close>, one definition for each of its statements.\<close>

definition initChartType_B :: "TileConfig \<Rightarrow> editor_state \<Rightarrow> editor_state" where
  "initChartType_B c s =
     (if js_or (cfg_uiChartType c) [] \<noteq> []
      then s\<lparr>chartType := js_or (cfg_uiChartType c) []\<rparr>
      else if js_or (cfg_chartType c) [] \<noteq> []
      then s\<lparr>chartType := js_or (cfg_chartType c) []\<rparr>
      else s)"

definition initSelection_B :: "TileConfig \<Rightarrow> editor_state \<Rightarrow> editor_state" where
  "initSelection_B c s =
     (let s1 = (case cfg_dimensions c of
                  None \<Rightarrow> s
                | Some ds \<Rightarrow> s\<lparr>dimensions := ds\<rparr>)
      in case cfg_measures c of
           Some ms \<Rightarrow> s1\<lparr>measures := ms\<rparr>
         | None \<Rightarrow>
             (case cfg_measure c of
                None \<Rightarrow> s1
              | Some m \<Rightarrow> s1\<lparr>measures := [m]\<rparr>))"

definition initTextRows_B :: "(nat \<Rightarrow> string) \<Rightarrow> TileConfig \<Rightarrow> editor_state \<Rightarrow> editor_state" where
  "initTextRows_B uuidv4 c s =
     (case cfg_textRows c of
        None \<Rightarrow> s
      | Some rows \<Rightarrow>
          s\<lparr>textRows :=
               map (\<lambda>(i, row). row\<lparr>row_id := (if row_id row \<noteq> [] then row_id row
                                                 else uuidv4 i)\<rparr>)
                   (enumerate 0 rows)\<rparr>)"

definition initQueryMode_B :: "TileConfig \<Rightarrow> editor_state \<Rightarrow> editor_state" where
  "initQueryMode_B c s =
     (if cfg_isQueryMode c = Some True
      then (if js_or (cfg_customQuery c) [] \<noteq> []
            then s\<lparr>isQueryMode := True, customQuery := js_or (cfg_customQuery c) []\<rparr>
            else s\<lparr>isQueryMode := True\<rparr>)
      else s)"

definition initTile_B ::
  "(nat \<Rightarrow> string) \<Rightarrow> Tile option \<Rightarrow> bool \<Rightarrow> editor_state \<Rightarrow> editor_state" where
  "initTile_B uuidv4 tile is_open s =
     (case tile of
        None \<Rightarrow> s
      | Some t \<Rightarrow>
          if \<not> is_open then s
          else
            let s1 = s\<lparr>st_name := tile_title t,
                       st_description := js_or (tile_description t) []\<rparr>;
                s2 = initTileType_B t s1;
                s3 = initConnection_B t s2
            in (case tile_config t of
                  None \<Rightarrow> s3
                | Some c \<Rightarrow>
                    initQueryMode_B c
                      (initTextRows_B uuidv4 c (initSelection_B c (initChartType_B c s3)))))"

text \<open>
  Copy B, \<open>isValid\<close>: it sets the error message itself. The result pairs the verdict
  with the message it set, if any.
\<close>

definition isValid_B :: "editor_state \<Rightarrow> bool \<times> string option" where
  "isValid_B s =
     (if trim (st_name s) = [] then (False, Some ''Title is required'')
      else if tileType s = ''chart'' \<and> measures s = []
        then (False, Some ''At least one measure is required for a chart'')
      else if tileType s = ''metric'' \<and> measures s = []
        then (False, Some ''At least one measure is required for a metric tile'')
      else if (tileType s = ''chart'' \<or> tileType s = ''table'' \<or> tileType s = ''metric'') \<and>
              connectionId s = []
        then (False, Some ''A connection is required for this tile type'')
      else (True, None))"

subsection \<open>Notions of the specification\<close>

text \<open>
  The tables that the fields of a selection resolve to, dimensions first, with
  repetitions: the specification counts the distinct members of this list.
\<close>

definition resolved_tables ::
  "DimensionField list \<Rightarrow> MeasureField list \<Rightarrow> (string \<rightharpoonup> string) \<Rightarrow> string list" where
  "resolved_tables dims meas ftm =
     map (\<lambda>dim. resolve_table ftm (DimensionField.fieldId dim)) dims @
     map (\<lambda>measure. resolve_table ftm (MeasureField.fieldId measure)) meas"

text \<open>
  The specification identifies a field by its table together with its name. A measure
  is a measure for a field when it carries the name of the field and the table lookup
  resolves it to the table of the field.
\<close>

definition measure_for_field ::
  "(string \<rightharpoonup> string) \<Rightarrow> DatabaseField \<Rightarrow> MeasureField \<Rightarrow> bool" where
  "measure_for_field ftm field m =
     (MeasureField.fieldName m = name field \<and>
      resolve_table ftm (MeasureField.fieldId m) = table field)"


definition measure_of :: "DatabaseField \<Rightarrow> MeasureField" where
  "measure_of field = \<lparr>MeasureField.fieldId = name field,
     MeasureField.fieldName = name field, MeasureField.aggregation = ''sum'',
     m_alias = Some (name field @ ''_sum'')\<rparr>"

subsection \<open>Example values\<close>

text \<open>The state of a freshly opened editor of copy A: the initial values of its cells.\<close>

definition initial_state :: editor_state where
  "initial_state = \<lparr>st_name = [], st_description = [], tileType = ''chart'',
     connectionId = [], chartType = ''bar'',
     textRows = [\<lparr>row_id = ''1'', row_type = ''header'', content = [], isQuery = False\<rparr>],
     isQueryMode = False, customQuery = [], dimensions = [], measures = [],
     saving = False, error = [], fieldTableMap = Map.empty\<rparr>"

text \<open>The selection of the scenario in the specification, and a second dimension.\<close>

definition ex_region :: DimensionField where
  "ex_region = \<lparr>DimensionField.fieldId = ''orders.region'',
     DimensionField.fieldName = ''region'', DimensionField.aggregation = None\<rparr>"

definition ex_city :: DimensionField where
  "ex_city = \<lparr>DimensionField.fieldId = ''customers.city'',
     DimensionField.fieldName = ''city'', DimensionField.aggregation = None\<rparr>"

definition ex_amount :: MeasureField where
  "ex_amount = \<lparr>MeasureField.fieldId = ''amount'', MeasureField.fieldName = ''amount'',
     MeasureField.aggregation = ''sum'', m_alias = Some ''amount_sum''\<rparr>"

definition ex_fieldTableMap :: "string \<rightharpoonup> string" where
  "ex_fieldTableMap = [''orders.region'' \<mapsto> ''orders'', ''amount'' \<mapsto> ''orders'']"

definition ex_fieldTableMap2 :: "string \<rightharpoonup> string" where
  "ex_fieldTableMap2 = [''orders.region'' \<mapsto> ''orders'',
     ''customers.city'' \<mapsto> ''customers'', ''amount'' \<mapsto> ''orders'']"

text \<open>A column \<open>price\<close> of the table \<open>orders\<close> with a given type.\<close>

definition ex_field :: "string option \<Rightarrow> DatabaseField" where
  "ex_field ty = \<lparr>name = ''price'', type = ty, table = ''orders'', description = None\<rparr>"

text \<open>Two columns called \<open>code\<close> in two tables, the first of them not numeric.\<close>

definition ex_code_products :: DatabaseField where
  "ex_code_products = \<lparr>name = ''code'', type = Some ''VARCHAR'', table = ''products'',
     description = None\<rparr>"

definition ex_code_orders :: DatabaseField where
  "ex_code_orders = \<lparr>name = ''code'', type = Some ''INTEGER'', table = ''orders'',
     description = None\<rparr>"

text \<open>Two numeric columns called \<open>amount\<close> in two tables.\<close>

definition ex_amount_orders :: DatabaseField where
  "ex_amount_orders = \<lparr>name = ''amount'', type = Some ''DECIMAL(10,2)'', table = ''orders'',
     description = None\<rparr>"

definition ex_amount_refunds :: DatabaseField where
  "ex_amount_refunds = \<lparr>name = ''amount'', type = Some ''DECIMAL(10,2)'',
     table = ''refunds'', description = None\<rparr>"

text \<open>A column for a dimension.\<close>

definition ex_region_field :: DatabaseField where
  "ex_region_field = \<lparr>name = ''region'', type = Some ''VARCHAR'', table = ''orders'',
     description = None\<rparr>"

definition ex_city_field :: DatabaseField where
  "ex_city_field = \<lparr>name = ''city'', type = Some ''VARCHAR'', table = ''customers'',
     description = None\<rparr>"

text \<open>An editor with two dimensions selected.\<close>

definition ex_two_dimensions :: editor_state where
  "ex_two_dimensions = initial_state\<lparr>dimensions := [ex_region, ex_city]\<rparr>"

text \<open>A metric tile with a name and a connection and no measure.\<close>

definition ex_metric_state :: editor_state where
  "ex_metric_state = initial_state\<lparr>st_name := ''Revenue'', tileType := ''metric'',
     connectionId := ''conn-1''\<rparr>"

text \<open>
  A complete table tile, the payload that saving it sends, and the tile that carries
  this payload when it comes back for editing.
\<close>

definition ex_table_state :: editor_state where
  "ex_table_state = initial_state\<lparr>st_name := ''Sales by region'', tileType := ''table'',
     connectionId := ''conn-1'', dimensions := [ex_region], measures := [ex_amount],
     fieldTableMap := ex_fieldTableMap\<rparr>"

definition ex_table_dto :: CreateTileDto where
  "ex_table_dto = \<lparr>dto_title = ''Sales by region'', dto_description = None,
     dto_type = ''chart'', dto_dashboardId = ''dash-1'', dto_connectionId = Some ''conn-1'',
     dto_config = empty_config\<lparr>cfg_chartType := Some ''bar'',
       cfg_uiChartType := Some ''table'', cfg_dimensions := Some [ex_region],
       cfg_measures := Some [ex_amount], cfg_uiType := Some ''table'',
       cfg_sqlQuery := Some ''SELECT orders.region, sum(orders.amount) as amount_sum \<newline>FROM orders \<newline>GROUP BY orders.region'',
       cfg_connectionId := Some ''conn-1''\<rparr>\<rparr>"

definition ex_table_tile :: Tile where
  "ex_table_tile = \<lparr>tile_id = ''tile-1'', tile_title = dto_title ex_table_dto,
     tile_type = dto_type ex_table_dto, tile_description = dto_description ex_table_dto,
     tile_connectionId = dto_connectionId ex_table_dto,
     tile_config = Some (dto_config ex_table_dto)\<rparr>"

text \<open>A tile stored before the configuration carried tags, of a given backend kind.\<close>

definition ex_legacy_tile :: "string \<Rightarrow> Tile" where
  "ex_legacy_tile kind = \<lparr>tile_id = ''tile-0'', tile_title = ''Old tile'', tile_type = kind,
     tile_description = None, tile_connectionId = None,
     tile_config = Some (empty_config\<lparr>cfg_chartType := Some ''line''\<rparr>)\<rparr>"

section \<open>Properties\<close>

subsection \<open>Facts about the primitives\<close>

lemma includes_str_sublist: "includes_str s sub \<longleftrightarrow> sublist sub s"
  by (induction s) (auto simp: sublist_Cons_right)

lemma toLowerCase_simps:
  "toLowerCase [] = []"
  "toLowerCase (c # cs) = toLowerCase_char c # toLowerCase cs"
  by (simp_all add: toLowerCase_def)

lemma splice1_beyond: "int (length xs) \<le> i \<Longrightarrow> splice1 xs i = xs"
  by (simp add: splice1_def Let_def min_def)

lemma splice1_inside:
  "0 \<le> i \<Longrightarrow> i < int (length xs) \<Longrightarrow>
   splice1 xs i = take (nat i) xs @ drop (Suc (nat i)) xs"
  by (simp add: splice1_def Let_def min_def)

lemma splice1_negative:
  "i < 0 \<Longrightarrow>
   splice1 xs i =
     take (nat (int (length xs) + i)) xs @ drop (Suc (nat (int (length xs) + i))) xs"
  by (simp add: splice1_def Let_def max_def)

text \<open>A name of white space alone is blank, whether the space is ASCII or not.\<close>

lemma trim_blank:
  "trim [] = []" "trim ''  '' = []" "trim [CHR 0xC2, CHR 0xA0] = []"
  "trim [CHR 0x20, CHR 0xE2, CHR 0x80, CHR 0xA8, CHR 0x09] = []"
  "trim '' a b '' = ''a b''"
  by (simp_all add: trim_def white_space_def)

lemma set_foldl_set_add: "set (foldl set_add acc xs) = set acc \<union> set xs"
  by (induction xs arbitrary: acc) (auto simp: set_add_def)

lemma distinct_foldl_set_add: "distinct acc \<Longrightarrow> distinct (foldl set_add acc xs)"
  by (induction xs arbitrary: acc) (auto simp: set_add_def)

lemma first_table_foldl_set_add:
  "acc \<noteq> [] \<Longrightarrow> first_table (foldl set_add acc xs) = first_table acc"
  by (induction xs arbitrary: acc) (auto simp: set_add_def first_table_def split: list.splits)

lemmas sql_eval = generateSqlQuery_def generateSqlQuery_B_def collect_tables_def
  dimensionColumns_def measureColumns_def measureColumns_B_def resolve_table_def js_or_def
  set_add_def first_table_def groupByClause_def join_marker_def
  ex_region_def ex_city_def ex_amount_def ex_fieldTableMap_def ex_fieldTableMap2_def

lemmas classifier_eval = isNumericField_def isNumericField_B_def numericTypes_def
  numericTypes_B_def toLowerCase_simps toLowerCase_char_def

subsection \<open>The table set of the synthesizer\<close>

lemma collect_tables_foldl:
  "collect_tables dims meas ftm = foldl set_add [] (resolved_tables dims meas ftm)"
  by (simp add: collect_tables_def resolved_tables_def)

lemma length_collect_tables:
  "length (collect_tables dims meas ftm) = card (set (resolved_tables dims meas ftm))"
proof -
  have "distinct (collect_tables dims meas ftm)"
    unfolding collect_tables_foldl by (rule distinct_foldl_set_add) simp
  then have "length (collect_tables dims meas ftm) = card (set (collect_tables dims meas ftm))"
    by (simp add: distinct_card)
  then show ?thesis
    by (simp add: collect_tables_foldl set_foldl_set_add)
qed

lemma first_collect_tables:
  assumes "dims \<noteq> []"
  shows "first_table (collect_tables dims meas ftm) =
         resolve_table ftm (DimensionField.fieldId (hd dims))"
proof -
  from assms obtain d ds where dims: "dims = d # ds" by (cases dims) auto
  have "collect_tables dims meas ftm =
        foldl set_add [resolve_table ftm (DimensionField.fieldId d)]
          (resolved_tables ds meas ftm)"
    by (simp add: collect_tables_foldl resolved_tables_def dims set_add_def)
  then have "first_table (collect_tables dims meas ftm) =
             first_table [resolve_table ftm (DimensionField.fieldId d)]"
    by (simp add: first_table_foldl_set_add)
  then show ?thesis
    by (simp add: dims first_table_def)
qed

text \<open>
  The statement of copy A: the table of the first dimension is the only one after
  \<open>FROM\<close>, and nothing stands between it and the grouping, however many tables the
  selection resolves to.
\<close>

lemma generateSqlQuery_shape:
  assumes "dims \<noteq> []" and "meas \<noteq> []"
  shows "generateSqlQuery dims meas ftm =
     ''SELECT '' @ join (dimensionColumns dims ftm @ measureColumns meas ftm) '', '' @
     '' \<newline>FROM '' @ resolve_table ftm (DimensionField.fieldId (hd dims)) @ '' \<newline>'' @
     groupByClause (dimensionColumns dims ftm)"
  using assms
  by (simp add: generateSqlQuery_def Let_def first_collect_tables)

text \<open>
  The statement of copies B and C: the table of the first dimension is the only one
  after \<open>FROM\<close>, and the comment follows it exactly when the selection resolves to more
  than one distinct table.
\<close>

lemma generateSqlQuery_B_shape:
  assumes "dims \<noteq> []" and "meas \<noteq> []"
  shows "generateSqlQuery_B dims meas ftm =
     ''SELECT '' @ join (dimensionColumns dims ftm @ measureColumns_B meas ftm) '', '' @
     '' FROM '' @ resolve_table ftm (DimensionField.fieldId (hd dims)) @ '' '' @
     (if card (set (resolved_tables dims meas ftm)) > 1 then join_marker else []) @ '' '' @
     groupByClause (dimensionColumns dims ftm)"
  using assms
  by (simp add: generateSqlQuery_B_def Let_def first_collect_tables length_collect_tables)

lemma generateSqlQuery_B_marker:
  assumes "dims \<noteq> []" and "meas \<noteq> []"
    and "card (set (resolved_tables dims meas ftm)) > 1"
  shows "includes_str (generateSqlQuery_B dims meas ftm) join_marker"
proof -
  define before where "before = ''SELECT '' @
     join (dimensionColumns dims ftm @ measureColumns_B meas ftm) '', '' @
     '' FROM '' @ resolve_table ftm (DimensionField.fieldId (hd dims)) @ '' ''"
  define rest where "rest = '' '' @ groupByClause (dimensionColumns dims ftm)"
  have "generateSqlQuery_B dims meas ftm = before @ join_marker @ rest"
    using assms(3) by (simp add: generateSqlQuery_B_shape [OF assms(1,2)] before_def rest_def)
  then have "sublist join_marker (generateSqlQuery_B dims meas ftm)"
    by (simp add: sublist_appendI)
  then show ?thesis by (simp add: includes_str_sublist)
qed

subsection \<open>The selection handlers\<close>






lemma handleAddMeasure_rejected:
  "\<not> isNumericField f \<Longrightarrow> handleAddMeasure f s = s"
  by (simp add: handleAddMeasure_def)

lemma handleAddMeasure_new:
  assumes "isNumericField f"
    and "\<not> list_ex (\<lambda>m. MeasureField.fieldId m = name f) (measures s)"
  shows "handleAddMeasure f s =
         s\<lparr>measures := measures s @ [measure_of f],
            fieldTableMap := (fieldTableMap s)(name f \<mapsto> table f)\<rparr>"
  using assms by (simp add: handleAddMeasure_def measure_of_def Let_def)

lemma handleAddMeasure_present:
  assumes "list_ex (\<lambda>m. MeasureField.fieldId m = name f) (measures s)"
  shows "handleAddMeasure f s = s"
  using assms by (simp add: handleAddMeasure_def Let_def)

lemma handleAddMeasure_same_name:
  assumes "isNumericField f1" and "name f2 = name f1"
    and "\<not> list_ex (\<lambda>m. MeasureField.fieldId m = name f1) (measures s)"
  shows "handleAddMeasure f2 (handleAddMeasure f1 s) = handleAddMeasure f1 s"
proof -
  have "list_ex (\<lambda>m. MeasureField.fieldId m = name f2) (measures (handleAddMeasure f1 s))"
    by (simp add: handleAddMeasure_new [OF assms(1,3)] measure_of_def list_ex_iff assms(2))
  then show ?thesis by (rule handleAddMeasure_present)
qed

lemma handleAddMeasure_twice:
  "handleAddMeasure f (handleAddMeasure f s) = handleAddMeasure f s"
proof (cases "isNumericField f")
  case False
  then show ?thesis by (simp add: handleAddMeasure_rejected)
next
  case numeric: True
  show ?thesis
  proof (cases "list_ex (\<lambda>m. MeasureField.fieldId m = name f) (measures s)")
    case True
    then show ?thesis by (simp add: handleAddMeasure_present)
  next
    case False
    with numeric show ?thesis by (simp add: handleAddMeasure_same_name)
  qed
qed

text \<open>
  Copy C: whatever the field, \<open>handleAddMeasure\<close> leaves the table lookup as it was,
  and a measure that it appends costs a ReferenceError.
\<close>

lemma handleAddMeasure_C_map:
  "fieldTableMap (fst (handleAddMeasure_C f s)) = fieldTableMap s"
  by (simp add: handleAddMeasure_C_def Let_def split: sum.splits)

lemma handleAddMeasure_C_new:
  assumes "isNumericField_B f = Inr True"
    and "\<not> list_ex (\<lambda>m. MeasureField.fieldId m = name f) (measures s)"
  shows "handleAddMeasure_C f s =
         (s\<lparr>measures := measures s @ [measure_of f]\<rparr>, Some ReferenceError)"
  using assms by (simp add: handleAddMeasure_C_def measure_of_def Let_def)

text \<open>
  The example selections are what the handlers of copy A build from the example
  columns, starting from a fresh editor.
\<close>

lemma ex_selection_built:
  "dimensions (handleAddMeasure ex_amount_orders
     (handleAddDimension ex_city_field
       (handleAddDimension ex_region_field initial_state))) = [ex_region, ex_city] \<and>
   measures (handleAddMeasure ex_amount_orders
     (handleAddDimension ex_city_field
       (handleAddDimension ex_region_field initial_state))) = [ex_amount] \<and>
   fieldTableMap (handleAddMeasure ex_amount_orders
     (handleAddDimension ex_city_field
       (handleAddDimension ex_region_field initial_state))) = ex_fieldTableMap2"
  by (simp add: handleAddMeasure_def handleAddDimension_def Let_def classifier_eval
      ex_amount_orders_def ex_city_field_def ex_region_field_def initial_state_def
      ex_region_def ex_city_def ex_amount_def ex_fieldTableMap2_def)

subsection \<open>The classifier\<close>

text \<open>
  Copy A classifies a field as numeric exactly when its type is present and, in lower
  case, contains one of the ten type names.
\<close>

lemma isNumericField_iff:
  "isNumericField f \<longleftrightarrow>
     (\<exists>t. type f = Some t \<and>
        (sublist ''int'' (toLowerCase t) \<or> sublist ''integer'' (toLowerCase t) \<or>
         sublist ''number'' (toLowerCase t) \<or> sublist ''float'' (toLowerCase t) \<or>
         sublist ''double'' (toLowerCase t) \<or> sublist ''decimal'' (toLowerCase t) \<or>
         sublist ''numeric'' (toLowerCase t) \<or> sublist ''bigint'' (toLowerCase t) \<or>
         sublist ''smallint'' (toLowerCase t) \<or> sublist ''real'' (toLowerCase t)))"
proof (cases "type f")
  case None
  then show ?thesis by (simp add: isNumericField_def)
next
  case (Some t)
  show ?thesis
  proof (cases "t = []")
    case True
    with Some show ?thesis by (simp add: isNumericField_def toLowerCase_simps)
  next
    case False
    with Some show ?thesis
      by (simp add: isNumericField_def numericTypes_def includes_str_sublist)
  qed
qed

subsection \<open>Saving and loading\<close>

lemma isValid_metric_no_measures:
  "tileType s = ''metric'' \<Longrightarrow> measures s = [] \<Longrightarrow> \<not> isValid s"
  by (simp add: isValid_def)

text \<open>
  Copy A, a metric tile without a measure: the gate stops the save, no service is
  called, only the error message and the saving flag are written, and the message is
  the general one. The message about the measure in the metric branch of \<open>handleSave\<close>
  is behind the gate and is never set.
\<close>

lemma handleSave_metric_no_measures:
  assumes "tileType s = ''metric''" and "measures s = []"
  shows "handleSave tile dashboardId net s =
         (s\<lparr>error := ''Invalid tile configuration'', saving := False\<rparr>, [])"
  using assms by (simp add: handleSave_def isValid_metric_no_measures)

lemma handleSave_valid_never_measure_message:
  "error (fst (handleSave tile dashboardId net s)) \<noteq>
     ''At least one measure is required for a metric tile''"
proof (cases "isValid s")
  case False
  then show ?thesis by (simp add: handleSave_def)
next
  case True
  have metric: "tileType s = ''metric'' \<Longrightarrow> measures s \<noteq> []"
    using True by (auto simp: isValid_def split: if_splits)
  have "buildConfig (s\<lparr>error := [], saving := True\<rparr>) \<noteq> None"
    using metric by (auto simp: buildConfig_def Let_def split: list.splits)
  then obtain c where c: "buildConfig (s\<lparr>error := [], saving := True\<rparr>) = Some c"
    by auto
  show ?thesis
    using True by (cases net) (simp_all add: handleSave_def Let_def c split: option.splits)
qed

lemma ex_table_valid: "isValid ex_table_state"
  by (simp add: isValid_def ex_table_state_def initial_state_def trim_def white_space_def)

lemma buildConfig_table:
  "tileType s = ''table'' \<Longrightarrow>
   buildConfig s = Some (empty_config\<lparr>cfg_chartType := Some ''bar'',
                   cfg_uiChartType := Some ''table'',
                   cfg_dimensions := Some (dimensions s),
                   cfg_measures := Some (measures s),
                   cfg_uiType := Some ''table'',
                   cfg_sqlQuery :=
                     Some (generateSqlQuery (dimensions s) (measures s) (fieldTableMap s))\<rparr>)"
  by (simp add: buildConfig_def Let_def)

lemma ex_table_sql:
  "generateSqlQuery [ex_region] [ex_amount] ex_fieldTableMap =
     ''SELECT orders.region, sum(orders.amount) as amount_sum \<newline>FROM orders \<newline>GROUP BY orders.region''"
  by (simp add: sql_eval)

text \<open>Saving the example table tile in copy A sends the example payload.\<close>

lemma handleSave_ex_table:
  "handleSave None ''dash-1'' Resolved ex_table_state =
     (ex_table_state, [CreateTile ex_table_dto, OnSave, OnClose])"
proof -
  have b: "buildConfig (ex_table_state\<lparr>error := [], saving := True\<rparr>) =
     Some (empty_config\<lparr>cfg_chartType := Some ''bar'',
                   cfg_uiChartType := Some ''table'',
                   cfg_dimensions := Some [ex_region],
                   cfg_measures := Some [ex_amount],
                   cfg_uiType := Some ''table'',
                   cfg_sqlQuery := Some ''SELECT orders.region, sum(orders.amount) as amount_sum \<newline>FROM orders \<newline>GROUP BY orders.region''\<rparr>)"
    by (simp add: buildConfig_table ex_table_state_def ex_table_sql)
  have fields: "connectionId ex_table_state = ''conn-1''"
    "st_name ex_table_state = ''Sales by region''"
    "st_description ex_table_state = []" "tileType ex_table_state = ''table''"
    by (simp_all add: ex_table_state_def initial_state_def)
  have final: "ex_table_state\<lparr>error := [], saving := False\<rparr> = ex_table_state"
    by (simp add: ex_table_state_def initial_state_def)
  have cfg: "empty_config\<lparr>cfg_chartType := Some ''bar'',
                   cfg_uiChartType := Some ''table'',
                   cfg_dimensions := Some [ex_region],
                   cfg_measures := Some [ex_amount],
                   cfg_uiType := Some ''table'',
                   cfg_sqlQuery := Some ''SELECT orders.region, sum(orders.amount) as amount_sum \<newline>FROM orders \<newline>GROUP BY orders.region'',
                   cfg_connectionId := Some ''conn-1''\<rparr> = dto_config ex_table_dto"
    by (simp add: ex_table_dto_def empty_config_def)
  have kind: "backendType ''table'' = ''chart''"
    by (simp add: backendType_def)
  have "handleSave None ''dash-1'' Resolved ex_table_state =
     (ex_table_state\<lparr>error := [], saving := False\<rparr>,
      [CreateTile \<lparr>dto_title = ''Sales by region'', dto_description = None,
         dto_type = ''chart'', dto_dashboardId = ''dash-1'',
         dto_connectionId = Some ''conn-1'', dto_config = dto_config ex_table_dto\<rparr>,
       OnSave, OnClose])"
    by (simp add: handleSave_def ex_table_valid b Let_def fields kind cfg)
  also have "\<lparr>dto_title = ''Sales by region'', dto_description = None,
         dto_type = ''chart'', dto_dashboardId = ''dash-1'',
         dto_connectionId = Some ''conn-1'', dto_config = dto_config ex_table_dto\<rparr> =
       ex_table_dto"
    by (simp add: ex_table_dto_def)
  finally show ?thesis by (simp only: final)
qed

text \<open>Copy A restores the tile kind from the backend's tag alone.\<close>

lemma initTile_tileType:
  "tileType (initTile (Some t) True s) = js_or (Some (tile_type t)) ''chart''"
  by (simp add: initTile_def Let_def split: option.splits)

lemma tileType_initConnection_B: "tileType (initConnection_B t s) = tileType s"
  by (simp add: initConnection_B_def Let_def)

lemma tileType_initChartType_B: "tileType (initChartType_B c s) = tileType s"
  by (simp add: initChartType_B_def)

lemma tileType_initSelection_B: "tileType (initSelection_B c s) = tileType s"
  by (simp add: initSelection_B_def Let_def split: option.splits)

lemma tileType_initTextRows_B: "tileType (initTextRows_B u c s) = tileType s"
  by (simp add: initTextRows_B_def split: option.splits)

lemma tileType_initQueryMode_B: "tileType (initQueryMode_B c s) = tileType s"
  by (simp add: initQueryMode_B_def)

text \<open>
  Copy B restores the tile kind from the tag \<open>uiType\<close> when the configuration carries a
  non-empty one, and from the fixed mapping of the backend's tag otherwise.
\<close>

lemma initTile_B_tileType:
  "tileType (initTile_B uuidv4 (Some t) True s) =
     (case tile_config t of
        None \<Rightarrow> legacyTileType (tile_type t)
      | Some c \<Rightarrow>
          (case cfg_uiType c of
             None \<Rightarrow> legacyTileType (tile_type t)
           | Some u \<Rightarrow> if u \<noteq> [] then u else legacyTileType (tile_type t)))"
  by (simp add: initTile_B_def initTileType_B_def Let_def tileType_initConnection_B
      tileType_initChartType_B tileType_initSelection_B tileType_initTextRows_B
      tileType_initQueryMode_B split: option.splits)

lemma initTile_B_table_roundtrip:
  assumes "tile_config t = Some c" and "cfg_uiType c = Some ''table''"
  shows "tileType (initTile_B uuidv4 (Some t) True s) = ''table''"
  by (simp add: initTile_B_tileType assms)

lemma initTile_B_legacy:
  assumes "tile_config t = None \<or> (\<exists>c. tile_config t = Some c \<and> cfg_uiType c = None)"
  shows "tileType (initTile_B uuidv4 (Some t) True s) = legacyTileType (tile_type t)"
  using assms by (auto simp: initTile_B_tileType)

lemma legacyTileType_mapping:
  "legacyTileType ''chart'' = ''chart''" "legacyTileType ''text'' = ''text''"
  "legacyTileType ''kpi'' = ''metric''"
  by (simp_all add: legacyTileType_def)

section \<open>The claims\<close>

text \<open>
  C1, as amended. For the scenario of the specification (the dimension
  \<open>orders.region\<close>, the measure \<open>amount\<close> with aggregation \<open>sum\<close> and alias
  \<open>amount_sum\<close>, both fields mapped to the table \<open>orders\<close>), copy A returns the
  statement with a space and a line break before \<open>FROM\<close> and before \<open>GROUP BY\<close>, and
  copies B and C return it on one line with two spaces between the table and
  \<open>GROUP BY\<close>, where the empty place of the JOIN comment is. No copy puts the JOIN comment
  into it.
\<close>

theorem generateSqlQuery_scenario:
  "generateSqlQuery [ex_region] [ex_amount] ex_fieldTableMap =
     ''SELECT orders.region, sum(orders.amount) as amount_sum \<newline>FROM orders \<newline>GROUP BY orders.region'' \<and>
   generateSqlQuery_B [ex_region] [ex_amount] ex_fieldTableMap =
     ''SELECT orders.region, sum(orders.amount) as amount_sum FROM orders  GROUP BY orders.region'' \<and>
   \<not> includes_str (generateSqlQuery [ex_region] [ex_amount] ex_fieldTableMap) join_marker \<and>
   \<not> includes_str (generateSqlQuery_B [ex_region] [ex_amount] ex_fieldTableMap) join_marker"
  by (simp add: sql_eval)

text \<open>
  C1 as it was stated names a string with single spaces throughout; on the scenario no
  copy returns that string.
\<close>

theorem generateSqlQuery_scenario_counterexample:
  "generateSqlQuery [ex_region] [ex_amount] ex_fieldTableMap \<noteq>
     ''SELECT orders.region, sum(orders.amount) as amount_sum FROM orders GROUP BY orders.region'' \<and>
   generateSqlQuery_B [ex_region] [ex_amount] ex_fieldTableMap \<noteq>
     ''SELECT orders.region, sum(orders.amount) as amount_sum FROM orders GROUP BY orders.region''"
  by (simp add: sql_eval)

text \<open>
  C2. Whenever the dimension list or the measure list is empty, \<open>generateSqlQuery\<close>
  returns the empty string. Whenever both are non-empty, it returns a non-empty SELECT
  statement: the word \<open>SELECT\<close>, one qualified column for each dimension and one
  aggregated column with its alias for each measure, in the order of the lists and
  separated by commas, then \<open>FROM\<close> with the table of the first dimension, then
  \<open>GROUP BY\<close> with the columns of the dimensions. This holds in every copy; copies B
  and C print a missing alias as \<open>undefined\<close> and put the JOIN comment after the table
  when the selection resolves to more than one distinct table.
\<close>

theorem generateSqlQuery_empty_or_select:
  "(dims = [] \<or> meas = [] \<longrightarrow>
      generateSqlQuery dims meas ftm = [] \<and> generateSqlQuery_B dims meas ftm = []) \<and>
   (dims \<noteq> [] \<and> meas \<noteq> [] \<longrightarrow>
      generateSqlQuery dims meas ftm \<noteq> [] \<and>
      generateSqlQuery dims meas ftm =
        ''SELECT '' @
        join (map (\<lambda>d. resolve_table ftm (DimensionField.fieldId d) @ ''.'' @
                        DimensionField.fieldName d) dims @
              map (\<lambda>m. MeasureField.aggregation m @ ''('' @
                        resolve_table ftm (MeasureField.fieldId m) @ ''.'' @
                        MeasureField.fieldName m @ '') as '' @
                        js_or (m_alias m) (MeasureField.fieldName m)) meas) '', '' @
        '' \<newline>FROM '' @ resolve_table ftm (DimensionField.fieldId (hd dims)) @
        '' \<newline>GROUP BY '' @
        join (map (\<lambda>d. resolve_table ftm (DimensionField.fieldId d) @ ''.'' @
                        DimensionField.fieldName d) dims) '', '' \<and>
      generateSqlQuery_B dims meas ftm \<noteq> [] \<and>
      generateSqlQuery_B dims meas ftm =
        ''SELECT '' @
        join (map (\<lambda>d. resolve_table ftm (DimensionField.fieldId d) @ ''.'' @
                        DimensionField.fieldName d) dims @
              map (\<lambda>m. MeasureField.aggregation m @ ''('' @
                        resolve_table ftm (MeasureField.fieldId m) @ ''.'' @
                        MeasureField.fieldName m @ '') as '' @
                        (case m_alias m of None \<Rightarrow> ''undefined'' | Some a \<Rightarrow> a)) meas) '', '' @
        '' FROM '' @ resolve_table ftm (DimensionField.fieldId (hd dims)) @ '' '' @
        (if card (set (resolved_tables dims meas ftm)) > 1 then join_marker else []) @
        '' GROUP BY '' @
        join (map (\<lambda>d. resolve_table ftm (DimensionField.fieldId d) @ ''.'' @
                        DimensionField.fieldName d) dims) '', '')"
proof (intro conjI impI)
  assume "dims = [] \<or> meas = []"
  then show "generateSqlQuery dims meas ftm = []" "generateSqlQuery_B dims meas ftm = []"
    by (auto simp: generateSqlQuery_def generateSqlQuery_B_def)
next
  assume ne: "dims \<noteq> [] \<and> meas \<noteq> []"
  then have cols: "dimensionColumns dims ftm \<noteq> []"
    by (simp add: dimensionColumns_def)
  from ne show "generateSqlQuery dims meas ftm \<noteq> []" "generateSqlQuery_B dims meas ftm \<noteq> []"
    by (simp_all add: generateSqlQuery_shape generateSqlQuery_B_shape)
  have "generateSqlQuery dims meas ftm =
     ''SELECT '' @ join (dimensionColumns dims ftm @ measureColumns meas ftm) '', '' @
     '' \<newline>FROM '' @ resolve_table ftm (DimensionField.fieldId (hd dims)) @ '' \<newline>'' @
     groupByClause (dimensionColumns dims ftm)"
    using ne by (simp add: generateSqlQuery_shape)
  then show "generateSqlQuery dims meas ftm =
        ''SELECT '' @
        join (map (\<lambda>d. resolve_table ftm (DimensionField.fieldId d) @ ''.'' @
                        DimensionField.fieldName d) dims @
              map (\<lambda>m. MeasureField.aggregation m @ ''('' @
                        resolve_table ftm (MeasureField.fieldId m) @ ''.'' @
                        MeasureField.fieldName m @ '') as '' @
                        js_or (m_alias m) (MeasureField.fieldName m)) meas) '', '' @
        '' \<newline>FROM '' @ resolve_table ftm (DimensionField.fieldId (hd dims)) @
        '' \<newline>GROUP BY '' @
        join (map (\<lambda>d. resolve_table ftm (DimensionField.fieldId d) @ ''.'' @
                        DimensionField.fieldName d) dims) '', ''"
    using cols by (simp add: groupByClause_def) (simp add: dimensionColumns_def measureColumns_def)
  have "generateSqlQuery_B dims meas ftm =
     ''SELECT '' @ join (dimensionColumns dims ftm @ measureColumns_B meas ftm) '', '' @
     '' FROM '' @ resolve_table ftm (DimensionField.fieldId (hd dims)) @ '' '' @
     (if card (set (resolved_tables dims meas ftm)) > 1 then join_marker else []) @ '' '' @
     groupByClause (dimensionColumns dims ftm)"
    using ne by (simp add: generateSqlQuery_B_shape)
  then show "generateSqlQuery_B dims meas ftm =
        ''SELECT '' @
        join (map (\<lambda>d. resolve_table ftm (DimensionField.fieldId d) @ ''.'' @
                        DimensionField.fieldName d) dims @
              map (\<lambda>m. MeasureField.aggregation m @ ''('' @
                        resolve_table ftm (MeasureField.fieldId m) @ ''.'' @
                        MeasureField.fieldName m @ '') as '' @
                        (case m_alias m of None \<Rightarrow> ''undefined'' | Some a \<Rightarrow> a)) meas) '', '' @
        '' FROM '' @ resolve_table ftm (DimensionField.fieldId (hd dims)) @ '' '' @
        (if card (set (resolved_tables dims meas ftm)) > 1 then join_marker else []) @
        '' GROUP BY '' @
        join (map (\<lambda>d. resolve_table ftm (DimensionField.fieldId d) @ ''.'' @
                        DimensionField.fieldName d) dims) '', ''"
    using cols by (simp add: groupByClause_def) (simp add: dimensionColumns_def measureColumns_B_def)
qed

theorem generateSqlQuery_empty_or_select_witness:
  "generateSqlQuery [] [ex_amount] ex_fieldTableMap = [] \<and>
   generateSqlQuery [ex_region] [] ex_fieldTableMap = [] \<and>
   generateSqlQuery_B [ex_region] [] ex_fieldTableMap = [] \<and>
   generateSqlQuery [ex_region, ex_city] [ex_amount] ex_fieldTableMap2 \<noteq> [] \<and>
   generateSqlQuery [ex_region, ex_city] [ex_amount] ex_fieldTableMap2 =
     ''SELECT orders.region, customers.city, sum(orders.amount) as amount_sum \<newline>FROM orders \<newline>GROUP BY orders.region, customers.city''"
proof -
  have empty: "generateSqlQuery [] [ex_amount] ex_fieldTableMap = []"
    "generateSqlQuery [ex_region] [] ex_fieldTableMap = []"
    "generateSqlQuery_B [ex_region] [] ex_fieldTableMap = []"
    using generateSqlQuery_empty_or_select [of "[]" "[ex_amount]" ex_fieldTableMap]
          generateSqlQuery_empty_or_select [of "[ex_region]" "[]" ex_fieldTableMap]
    by simp_all
  have "[ex_region, ex_city] \<noteq> [] \<and> [ex_amount] \<noteq> []"
    by simp
  with generateSqlQuery_empty_or_select [of "[ex_region, ex_city]" "[ex_amount]" ex_fieldTableMap2]
  have ne: "generateSqlQuery [ex_region, ex_city] [ex_amount] ex_fieldTableMap2 \<noteq> []"
    and eq: "generateSqlQuery [ex_region, ex_city] [ex_amount] ex_fieldTableMap2 =
        ''SELECT '' @
        join (map (\<lambda>d. resolve_table ex_fieldTableMap2 (DimensionField.fieldId d) @ ''.'' @
                        DimensionField.fieldName d) [ex_region, ex_city] @
              map (\<lambda>m. MeasureField.aggregation m @ ''('' @
                        resolve_table ex_fieldTableMap2 (MeasureField.fieldId m) @ ''.'' @
                        MeasureField.fieldName m @ '') as '' @
                        js_or (m_alias m) (MeasureField.fieldName m)) [ex_amount]) '', '' @
        '' \<newline>FROM '' @
        resolve_table ex_fieldTableMap2 (DimensionField.fieldId (hd [ex_region, ex_city])) @
        '' \<newline>GROUP BY '' @
        join (map (\<lambda>d. resolve_table ex_fieldTableMap2 (DimensionField.fieldId d) @ ''.'' @
                        DimensionField.fieldName d) [ex_region, ex_city]) '', ''"
    by blast+
  have "generateSqlQuery [ex_region, ex_city] [ex_amount] ex_fieldTableMap2 =
     ''SELECT orders.region, customers.city, sum(orders.amount) as amount_sum \<newline>FROM orders \<newline>GROUP BY orders.region, customers.city''"
    unfolding eq
    by (simp add: resolve_table_def js_or_def ex_region_def ex_city_def ex_amount_def
        ex_fieldTableMap2_def)
  with empty ne show ?thesis by simp
qed

text \<open>
  C3. When the selection resolves to more than one distinct table, the statement names
  only the first table after \<open>FROM\<close> and carries the comment that JOIN logic is needed.
  On two dimensions from the tables \<open>orders\<close> and \<open>customers\<close>, copies B and C return
  such a statement, and copy A returns a statement that names \<open>orders\<close> alone and
  carries no comment.
\<close>

theorem generateSqlQuery_two_tables:
  "generateSqlQuery_B [ex_region, ex_city] [ex_amount] ex_fieldTableMap2 =
     ''SELECT orders.region, customers.city, sum(orders.amount) as amount_sum FROM orders /* JOIN logic needed for multiple tables */ GROUP BY orders.region, customers.city'' \<and>
   generateSqlQuery [ex_region, ex_city] [ex_amount] ex_fieldTableMap2 =
     ''SELECT orders.region, customers.city, sum(orders.amount) as amount_sum \<newline>FROM orders \<newline>GROUP BY orders.region, customers.city'' \<and>
   \<not> includes_str (generateSqlQuery [ex_region, ex_city] [ex_amount] ex_fieldTableMap2)
         join_marker"
  by (simp add: sql_eval)

text \<open>
  C4. A saved table tile carries the tags \<open>uiType\<close> and \<open>uiChartType\<close>, and loading it
  for editing restores the tile kind \<open>table\<close>; a tile without tags is loaded under the
  mapping chart to chart, text to text, kpi to metric. Copy A saves the example table
  tile with both tags and the backend kind \<open>chart\<close>, and loads the saved tile as a
  \<open>chart\<close>; it loads a tile of the backend kind \<open>kpi\<close> without tags as \<open>kpi\<close>. Copy B
  loads the first as a \<open>table\<close> and the second as a \<open>metric\<close>.
\<close>

theorem initTile_table_kind_lost:
  "handleSave None ''dash-1'' Resolved ex_table_state =
     (ex_table_state, [CreateTile ex_table_dto, OnSave, OnClose]) \<and>
   dto_type ex_table_dto = ''chart'' \<and>
   cfg_uiType (dto_config ex_table_dto) = Some ''table'' \<and>
   cfg_uiChartType (dto_config ex_table_dto) = Some ''table'' \<and>
   tile_type ex_table_tile = dto_type ex_table_dto \<and>
   tile_config ex_table_tile = Some (dto_config ex_table_dto) \<and>
   tileType (initTile (Some ex_table_tile) True initial_state) = ''chart'' \<and>
   tileType (initTile_B (\<lambda>i. ''generated-id'') (Some ex_table_tile) True initial_state) =
     ''table'' \<and>
   tileType (initTile (Some (ex_legacy_tile ''kpi'')) True initial_state) = ''kpi'' \<and>
   tileType (initTile_B (\<lambda>i. ''generated-id'') (Some (ex_legacy_tile ''kpi'')) True
      initial_state) = ''metric''"
  by (simp add: handleSave_ex_table initTile_tileType initTile_B_tileType)
     (simp add: ex_table_dto_def ex_table_tile_def ex_legacy_tile_def js_or_def
        empty_config_def legacyTileType_def)

text \<open>
  C5, as amended. \<open>handleAddMeasure\<close> leaves the measures unchanged for a field that
  is not numeric. It knows a measure by the bare name of its field: for a numeric field
  with no measure of its name in the list, from whichever table, it appends one measure
  with the aggregation \<open>sum\<close> and the alias of the name followed by \<open>_sum\<close>, and
  records the table of the field under its name; when a measure of that name is in the
  list, it changes nothing. Adding the same field a second time changes nothing.
\<close>

theorem handleAddMeasure_spec:
  "(\<not> isNumericField f \<longrightarrow> measures (handleAddMeasure f s) = measures s) \<and>
   (isNumericField f \<and> \<not> list_ex (\<lambda>m. MeasureField.fieldId m = name f) (measures s) \<longrightarrow>
      measures (handleAddMeasure f s) =
        measures s @ [\<lparr>MeasureField.fieldId = name f, MeasureField.fieldName = name f,
                        MeasureField.aggregation = ''sum'',
                        m_alias = Some (name f @ ''_sum'')\<rparr>] \<and>
      fieldTableMap (handleAddMeasure f s) = (fieldTableMap s)(name f \<mapsto> table f)) \<and>
   (list_ex (\<lambda>m. MeasureField.fieldId m = name f) (measures s) \<longrightarrow>
      handleAddMeasure f s = s) \<and>
   handleAddMeasure f (handleAddMeasure f s) = handleAddMeasure f s"
  by (simp add: handleAddMeasure_twice handleAddMeasure_rejected handleAddMeasure_present)
     (simp add: handleAddMeasure_new measure_of_def)

theorem handleAddMeasure_spec_witness:
  "measures (handleAddMeasure (ex_field (Some ''VARCHAR'')) initial_state) = [] \<and>
   measures (handleAddMeasure ex_amount_orders initial_state) = [ex_amount] \<and>
   fieldTableMap (handleAddMeasure ex_amount_orders initial_state) ''amount'' = Some ''orders'' \<and>
   handleAddMeasure ex_amount_refunds (handleAddMeasure ex_amount_orders initial_state) =
     handleAddMeasure ex_amount_orders initial_state"
proof -
  have h1: "\<not> isNumericField (ex_field (Some ''VARCHAR''))"
    by (simp add: classifier_eval ex_field_def)
  have h2: "isNumericField ex_amount_orders \<and>
     \<not> list_ex (\<lambda>m. MeasureField.fieldId m = name ex_amount_orders) (measures initial_state)"
    by (simp add: classifier_eval ex_amount_orders_def initial_state_def)
  from handleAddMeasure_spec [of "ex_field (Some ''VARCHAR'')" initial_state] h1
  have a: "measures (handleAddMeasure (ex_field (Some ''VARCHAR'')) initial_state) =
           measures initial_state"
    by blast
  from handleAddMeasure_spec [of ex_amount_orders initial_state] h2
  have b: "measures (handleAddMeasure ex_amount_orders initial_state) =
        measures initial_state @
          [\<lparr>MeasureField.fieldId = name ex_amount_orders,
            MeasureField.fieldName = name ex_amount_orders,
            MeasureField.aggregation = ''sum'',
            m_alias = Some (name ex_amount_orders @ ''_sum'')\<rparr>]"
    and c: "fieldTableMap (handleAddMeasure ex_amount_orders initial_state) =
        (fieldTableMap initial_state)(name ex_amount_orders \<mapsto> table ex_amount_orders)"
    by blast+
  have h3: "list_ex (\<lambda>m. MeasureField.fieldId m = name ex_amount_refunds)
              (measures (handleAddMeasure ex_amount_orders initial_state))"
    unfolding b by (simp add: ex_amount_orders_def ex_amount_refunds_def)
  from handleAddMeasure_spec
         [of ex_amount_refunds "handleAddMeasure ex_amount_orders initial_state"] h3
  have d: "handleAddMeasure ex_amount_refunds (handleAddMeasure ex_amount_orders initial_state) =
           handleAddMeasure ex_amount_orders initial_state"
    by blast
  have e: "measures initial_state = []" "name ex_amount_orders = ''amount''"
    "table ex_amount_orders = ''orders''"
    by (simp_all add: initial_state_def ex_amount_orders_def)
  show ?thesis
    unfolding a b c d by (simp add: e ex_amount_def)
qed

text \<open>
  C5 as it was stated appends a measure whenever the field is numeric and no measure
  for that field is in the list. After the column \<open>amount\<close> of the table \<open>orders\<close>
  has been added, the only measure resolves to \<open>orders\<close>, so no measure is a measure
  for the numeric column \<open>amount\<close> of the table \<open>refunds\<close>; adding that column
  appends nothing.
\<close>

theorem handleAddMeasure_field_identity_counterexample:
  "isNumericField ex_amount_refunds \<and>
   \<not> list_ex (measure_for_field
               (fieldTableMap (handleAddMeasure ex_amount_orders initial_state))
               ex_amount_refunds)
        (measures (handleAddMeasure ex_amount_orders initial_state)) \<and>
   measures (handleAddMeasure ex_amount_refunds
              (handleAddMeasure ex_amount_orders initial_state)) =
     measures (handleAddMeasure ex_amount_orders initial_state) \<and>
   measures (handleAddMeasure ex_amount_orders initial_state) = [ex_amount]"
proof -
  have numeric: "isNumericField ex_amount_orders" "isNumericField ex_amount_refunds"
    by (simp_all add: classifier_eval ex_amount_orders_def ex_amount_refunds_def)
  have fresh: "\<not> list_ex (\<lambda>m. MeasureField.fieldId m = name ex_amount_orders)
                   (measures initial_state)"
    by (simp add: initial_state_def)
  have same_name: "name ex_amount_refunds = name ex_amount_orders"
    by (simp add: ex_amount_orders_def ex_amount_refunds_def)
  have first: "handleAddMeasure ex_amount_orders initial_state =
     initial_state\<lparr>measures := measures initial_state @ [measure_of ex_amount_orders],
       fieldTableMap := (fieldTableMap initial_state)
                          (name ex_amount_orders \<mapsto> table ex_amount_orders)\<rparr>"
    by (rule handleAddMeasure_new [OF numeric(1) fresh])
  have second: "handleAddMeasure ex_amount_refunds
                  (handleAddMeasure ex_amount_orders initial_state) =
                handleAddMeasure ex_amount_orders initial_state"
    by (rule handleAddMeasure_same_name [OF numeric(1) same_name fresh])
  have none_for_field: "\<not> list_ex (measure_for_field
               (fieldTableMap (handleAddMeasure ex_amount_orders initial_state))
               ex_amount_refunds)
        (measures (handleAddMeasure ex_amount_orders initial_state))"
    unfolding first
    by (simp add: measure_for_field_def measure_of_def resolve_table_def js_or_def
        initial_state_def ex_amount_orders_def ex_amount_refunds_def)
  have only: "measures (handleAddMeasure ex_amount_orders initial_state) = [ex_amount]"
    unfolding first
    by (simp add: measure_of_def initial_state_def ex_amount_orders_def ex_amount_def)
  from numeric(2) none_for_field only show ?thesis
    by (simp only: second) simp
qed



text \<open>
  C7. A field is numeric exactly when its type, in lower case, contains one of
  \<open>int\<close>, \<open>integer\<close>, \<open>number\<close>, \<open>float\<close>, \<open>double\<close>, \<open>decimal\<close>, \<open>numeric\<close>,
  \<open>bigint\<close>, \<open>smallint\<close>, \<open>real\<close>; a field with an empty or a missing type is not
  numeric, and asking does not fail. Copy A answers so: \<open>BIGINT\<close> and \<open>REAL\<close> are
  numeric, \<open>VARCHAR\<close>, the empty type and the missing type are not. Copies B and C
  answer that \<open>REAL\<close> is not numeric, and fail with a TypeError on a missing type.
\<close>

theorem isNumericField_examples:
  "isNumericField (ex_field (Some ''BIGINT'')) \<and>
   \<not> isNumericField (ex_field (Some ''VARCHAR'')) \<and>
   \<not> isNumericField (ex_field (Some [])) \<and>
   \<not> isNumericField (ex_field None) \<and>
   isNumericField (ex_field (Some ''REAL'')) \<and>
   sublist ''real'' (toLowerCase ''REAL'') \<and>
   isNumericField_B (ex_field (Some ''REAL'')) = Inr False \<and>
   isNumericField_B (ex_field None) = Inl TypeError"
  by (simp add: classifier_eval ex_field_def flip: includes_str_sublist)

text \<open>
  C8. Saving a metric tile that has no measure fails validation with the reason that a
  measure is required, calls no service and leaves the selections as they are. In copy
  A the save of the example metric tile is stopped with no call and no change but the
  error message, and the message is \<open>Invalid tile configuration\<close>; the gate of copy B
  gives the reason \<open>At least one measure is required for a metric tile\<close> for the same
  state.
\<close>

theorem handleSave_metric_without_measure:
  "handleSave None ''dash-1'' Resolved ex_metric_state =
     (ex_metric_state\<lparr>error := ''Invalid tile configuration'', saving := False\<rparr>, []) \<and>
   error (fst (handleSave None ''dash-1'' Resolved ex_metric_state)) \<noteq>
     ''At least one measure is required for a metric tile'' \<and>
   isValid_B ex_metric_state =
     (False, Some ''At least one measure is required for a metric tile'')"
proof -
  have m: "tileType ex_metric_state = ''metric''" "measures ex_metric_state = []"
    by (simp_all add: ex_metric_state_def initial_state_def)
  have n: "trim (st_name ex_metric_state) \<noteq> []"
    by (simp add: ex_metric_state_def initial_state_def trim_def white_space_def)
  show ?thesis
    by (simp add: handleSave_metric_no_measures [OF m] isValid_B_def m n)
qed

text \<open>
  C9, as amended. \<open>handleRemoveDimension\<close> changes nothing when the index is at least
  the length of the dimension list. For an index from 0 up to the length, it removes
  exactly the dimension at that position. A negative index counts from the end of the
  list, no further back than its start, and removes the dimension there.
\<close>

theorem handleRemoveDimension_splice:
  "(int (length (dimensions s)) \<le> index \<longrightarrow> handleRemoveDimension index s = s) \<and>
   (0 \<le> index \<and> index < int (length (dimensions s)) \<longrightarrow>
      dimensions (handleRemoveDimension index s) =
        take (nat index) (dimensions s) @ drop (Suc (nat index)) (dimensions s)) \<and>
   (index < 0 \<longrightarrow>
      dimensions (handleRemoveDimension index s) =
        take (nat (int (length (dimensions s)) + index)) (dimensions s) @
        drop (Suc (nat (int (length (dimensions s)) + index))) (dimensions s))"
  by (simp add: handleRemoveDimension_def splice1_beyond splice1_inside splice1_negative)

theorem handleRemoveDimension_splice_witness:
  "handleRemoveDimension 2 ex_two_dimensions = ex_two_dimensions \<and>
   dimensions (handleRemoveDimension 0 ex_two_dimensions) = [ex_city] \<and>
   dimensions (handleRemoveDimension (- 1) ex_two_dimensions) = [ex_region] \<and>
   dimensions (handleRemoveDimension (- 7) ex_two_dimensions) = [ex_city]"
  using handleRemoveDimension_splice [of ex_two_dimensions 2]
        handleRemoveDimension_splice [of ex_two_dimensions 0]
        handleRemoveDimension_splice [of ex_two_dimensions "- 1"]
        handleRemoveDimension_splice [of ex_two_dimensions "- 7"]
  by (simp add: ex_two_dimensions_def)

text \<open>
  C9 as it was stated makes every index outside the list a no-op; the index \<open>-1\<close> on a
  list of two dimensions removes the last of them.
\<close>

theorem handleRemoveDimension_negative_counterexample:
  "length (dimensions ex_two_dimensions) = 2 \<and>
   dimensions (handleRemoveDimension (- 1) ex_two_dimensions) = [ex_region] \<and>
   dimensions (handleRemoveDimension (- 1) ex_two_dimensions) \<noteq> dimensions ex_two_dimensions"
  by (simp add: handleRemoveDimension_def splice1_def ex_two_dimensions_def)

text \<open>
  C10, as amended. Let two fields have the same name, let the first be numeric, and let
  the measure list hold no measure of that name. Then adding the first and then the
  second leaves exactly one measure of that name, the one of the first field at the
  end of the list; the second call changes nothing; and the table recorded for the
  name is the table of the first field.
\<close>

theorem handleAddMeasure_same_name_once:
  "name f2 = name f1 \<and> isNumericField f1 \<and>
   \<not> list_ex (\<lambda>m. MeasureField.fieldId m = name f1) (measures s) \<longrightarrow>
     handleAddMeasure f2 (handleAddMeasure f1 s) = handleAddMeasure f1 s \<and>
     measures (handleAddMeasure f2 (handleAddMeasure f1 s)) = measures s @ [measure_of f1] \<and>
     length (filter (\<lambda>m. MeasureField.fieldId m = name f1)
               (measures (handleAddMeasure f2 (handleAddMeasure f1 s)))) = 1 \<and>
     fieldTableMap (handleAddMeasure f2 (handleAddMeasure f1 s)) (name f1) = Some (table f1)"
proof (intro impI, elim conjE)
  assume a: "name f2 = name f1" "isNumericField f1"
    "\<not> list_ex (\<lambda>m. MeasureField.fieldId m = name f1) (measures s)"
  have same: "handleAddMeasure f2 (handleAddMeasure f1 s) = handleAddMeasure f1 s"
    using a by (simp add: handleAddMeasure_same_name)
  have "filter (\<lambda>m. MeasureField.fieldId m = name f1) (measures s) = []"
    using a(3) by (simp add: list_ex_iff filter_empty_conv)
  then show "handleAddMeasure f2 (handleAddMeasure f1 s) = handleAddMeasure f1 s \<and>
     measures (handleAddMeasure f2 (handleAddMeasure f1 s)) = measures s @ [measure_of f1] \<and>
     length (filter (\<lambda>m. MeasureField.fieldId m = name f1)
               (measures (handleAddMeasure f2 (handleAddMeasure f1 s)))) = 1 \<and>
     fieldTableMap (handleAddMeasure f2 (handleAddMeasure f1 s)) (name f1) = Some (table f1)"
    unfolding same by (simp add: handleAddMeasure_new [OF a(2,3)] measure_of_def)
qed

theorem handleAddMeasure_same_name_once_witness:
  "table ex_amount_refunds \<noteq> table ex_amount_orders \<and>
   length (measures (handleAddMeasure ex_amount_refunds
             (handleAddMeasure ex_amount_orders initial_state))) = 1 \<and>
   fieldTableMap (handleAddMeasure ex_amount_refunds
             (handleAddMeasure ex_amount_orders initial_state)) ''amount'' = Some ''orders''"
proof -
  have h: "name ex_amount_refunds = name ex_amount_orders \<and> isNumericField ex_amount_orders \<and>
     \<not> list_ex (\<lambda>m. MeasureField.fieldId m = name ex_amount_orders) (measures initial_state)"
    by (simp add: classifier_eval ex_amount_orders_def ex_amount_refunds_def initial_state_def)
  from handleAddMeasure_same_name_once [of ex_amount_refunds ex_amount_orders initial_state] h
  have c: "measures (handleAddMeasure ex_amount_refunds
             (handleAddMeasure ex_amount_orders initial_state)) =
           measures initial_state @ [measure_of ex_amount_orders]"
    and t: "fieldTableMap (handleAddMeasure ex_amount_refunds
             (handleAddMeasure ex_amount_orders initial_state)) (name ex_amount_orders) =
           Some (table ex_amount_orders)"
    by blast+
  have "name ex_amount_orders = ''amount''" "table ex_amount_orders = ''orders''"
    "table ex_amount_refunds = ''refunds''" "measures initial_state = []"
    by (simp_all add: ex_amount_orders_def ex_amount_refunds_def initial_state_def)
  with c t show ?thesis by simp
qed

text \<open>
  C10 as it was stated speaks of every two fields of one name in two tables. When the
  first is not numeric and the second is, the first call is rejected, the second call
  adds the measure, and the table recorded for the name is the table of the second
  field.
\<close>

theorem handleAddMeasure_same_name_counterexample:
  "name ex_code_products = name ex_code_orders \<and>
   table ex_code_products \<noteq> table ex_code_orders \<and>
   handleAddMeasure ex_code_orders (handleAddMeasure ex_code_products initial_state) \<noteq>
     handleAddMeasure ex_code_products initial_state \<and>
   fieldTableMap
     (handleAddMeasure ex_code_orders (handleAddMeasure ex_code_products initial_state))
     ''code'' = Some ''orders'' \<and>
   table ex_code_products = ''products''"
proof -
  have first: "handleAddMeasure ex_code_products initial_state = initial_state"
    by (rule handleAddMeasure_rejected)
       (simp add: classifier_eval ex_code_products_def)
  have numeric: "isNumericField ex_code_orders"
    by (simp add: classifier_eval ex_code_orders_def)
  have fresh: "\<not> list_ex (\<lambda>m. MeasureField.fieldId m = name ex_code_orders)
                   (measures initial_state)"
    by (simp add: initial_state_def)
  have "measures (handleAddMeasure ex_code_orders initial_state) \<noteq> measures initial_state"
    by (simp add: handleAddMeasure_new [OF numeric fresh])
  then have changed: "handleAddMeasure ex_code_orders initial_state \<noteq> initial_state"
    by auto
  have "fieldTableMap (handleAddMeasure ex_code_orders initial_state) (name ex_code_orders) =
        Some (table ex_code_orders)"
    by (simp add: handleAddMeasure_new [OF numeric fresh])
  then have "fieldTableMap (handleAddMeasure ex_code_orders initial_state) ''code'' =
        Some ''orders''"
    by (simp add: ex_code_orders_def)
  with changed show ?thesis
    unfolding first by (simp add: ex_code_products_def ex_code_orders_def)
qed

end
